theory Spec2Isabelle
  imports Complex_Main
begin

section \<open>Clock and actuators\<close>

text \<open>
  Both programs read the millisecond clock with \<open>ticks_ms()\<close> and compare two readings
  with \<open>ticks_diff(a, b)\<close>, primitives of MicroPython's \<open>time\<close> module. The tick counter
  has period \<open>2 ^ 30\<close>: a reading lies in \<open>[0, 2 ^ 30)\<close>, and \<open>ticks_diff\<close> is the
  difference of its arguments wrapped into \<open>[- 2 ^ 29, 2 ^ 29)\<close>
  (\<open>((a - b + PERIOD / 2) & (PERIOD - 1)) - PERIOD / 2\<close>).
\<close>

definition ticks_diff :: "int \<Rightarrow> int \<Rightarrow> int" where
  "ticks_diff a b = (a - b + 2 ^ 29) mod 2 ^ 30 - 2 ^ 29"

text \<open>
  What the programs do to the outside world is recorded as a list of actions, in program
  order. \<open>Sleep n\<close> is a \<open>sleep\<close> of \<open>n\<close> milliseconds (\<open>sleep(0.05)\<close> is \<open>Sleep 50\<close>).
  \<open>BreatheGreen\<close> stands for the writes of the green fade loop that runs while the program
  waits in its pause block; the duty values of the fade are not modelled.
\<close>

datatype action =
    Print string
  | LeftMotorStop
  | RightMotorStop
  | StbyPinOff
  | LedRedValue nat
  | LedBlueValue nat
  | GreenDuty nat
  | Sleep nat
  | BreatheGreen

text \<open>\<open>set_leds(r, g_pwm, b)\<close> of both programs.\<close>

definition set_leds :: "nat \<Rightarrow> nat \<Rightarrow> nat \<Rightarrow> action list" where
  "set_leds r g_pwm b = [LedRedValue r, LedBlueValue b, GreenDuty g_pwm]"

text \<open>\<open>DualMotorDriver.stop\<close> and \<open>DualMotorDriver.disable\<close>.\<close>

definition dmd_stop :: "action list" where
  "dmd_stop = [LeftMotorStop, RightMotorStop]"

definition dmd_disable :: "action list" where
  "dmd_disable = [StbyPinOff]"

text \<open>
  One call of a resolver ends in one of three ways: \<open>sys.exit()\<close> after some actions,
  waiting in the pause block for ever (no rising edge ever resumes it), or a return of the
  pair \<open>(speed, blue flag)\<close> with the updated globals.
\<close>

datatype 's outcome =
    Exit "action list"
  | Blocked "action list"
  | Return "action list" 's "real \<times> bool"

text \<open>
  The \<open>if\<close>/\<open>elif\<close>/\<open>else\<close> chain on the work time that ends both resolvers:
  \<open>> 55000\<close> is the critical branch, \<open>> 45000\<close> the low-battery branch, the rest normal.
\<close>

datatype band = NORMAL | DEGRADED | CRITICAL

definition battery_band :: "int \<Rightarrow> band" where
  "battery_band total_work_ms =
     (if total_work_ms > 55000 then CRITICAL
      else if total_work_ms > 45000 then DEGRADED
      else NORMAL)"

text \<open>
  The blink loop of the critical branch:
  \<open>end = ticks_ms() + 5000; while ticks_ms() < end: on; sleep(0.05); off; sleep(0.05)\<close>.
  The clock is taken to advance by exactly the time slept, so one round of the loop
  moves it by 100 ms, and not to wrap while the loop runs.
\<close>

function blink_loop :: "action list \<Rightarrow> action list \<Rightarrow> int \<Rightarrow> int \<Rightarrow> action list" where
  "blink_loop on off now end_time =
     (if now < end_time
      then on @ [Sleep 50] @ off @ [Sleep 50] @ blink_loop on off (now + 50 + 50) end_time
      else [])"
  by pat_completeness auto
termination
  by (relation "measure (\<lambda>(on, off, now, end_time). nat (end_time - now))") auto

declare blink_loop.simps [simp del]


section \<open>real\_wall\_bouncer.py\<close>

record rwb_state =
  paused :: bool
  work_accumulated_time :: int
  session_start_time :: int
  last_button_time :: int
  button_press_start :: int

text \<open>The globals after the module has loaded and line 150 has run at clock \<open>t0\<close>.\<close>

definition rwb_init :: "int \<Rightarrow> rwb_state" where
  "rwb_init t0 =
     \<lparr>paused = False, work_accumulated_time = 0, session_start_time = t0,
      last_button_time = 0, button_press_start = 0\<rparr>"

text \<open>\<open>toggle_pause_irq\<close>, called on a rising edge; \<open>current\<close> is its \<open>ticks_ms()\<close>.\<close>

definition toggle_pause_irq :: "rwb_state \<Rightarrow> int \<Rightarrow> rwb_state" where
  "toggle_pause_irq s current =
     (if ticks_diff current (last_button_time s) > 300 then
        (if \<not> paused s
         then s\<lparr>work_accumulated_time :=
                   work_accumulated_time s + ticks_diff current (session_start_time s),
                 paused := True,
                 last_button_time := current\<rparr>
         else s\<lparr>session_start_time := current,
                 paused := False,
                 last_button_time := current\<rparr>)
      else s)"

text \<open>Line 116: \<open>work_accumulated_time + ticks_diff(ticks_ms(), session_start_time)\<close>.\<close>

definition total_work_ms :: "rwb_state \<Rightarrow> int \<Rightarrow> int" where
  "total_work_ms s now = work_accumulated_time s + ticks_diff now (session_start_time s)"

text \<open>
  Part 1 of \<open>check_status\<close>, the hold check: \<open>Inl\<close> is the shutdown it performs before
  \<open>sys.exit()\<close>, \<open>Inr\<close> the globals it leaves when it falls through.
\<close>

definition termination_check :: "rwb_state \<Rightarrow> bool \<Rightarrow> int \<Rightarrow> action list + rwb_state" where
  "termination_check s button_value now =
     (if button_value then
        (if button_press_start s = 0 then Inr (s\<lparr>button_press_start := now\<rparr>)
         else if ticks_diff now (button_press_start s) > 3000 then
           Inl ([Print ''System Terminated by User (Hold).''] @ dmd_stop @ dmd_disable
                @ set_leds 0 0 0)
         else Inr s)
      else Inr (s\<lparr>button_press_start := 0\<rparr>))"

text \<open>
  The wait of part 2: \<open>while paused\<close> ends only when the interrupt handler clears the
  flag. The list holds the clock readings of the rising edges that arrive during the
  wait; when they run out with the flag still set, the loop never ends (\<open>None\<close>).
\<close>

fun pause_wait :: "rwb_state \<Rightarrow> int list \<Rightarrow> rwb_state option" where
  "pause_wait s [] = (if paused s then None else Some s)"
| "pause_wait s (e # es) = (if paused s then pause_wait (toggle_pause_irq s e) es else Some s)"

definition pause_entry :: "action list" where
  "pause_entry = [Print ''>>> PAUSED''] @ dmd_stop @ set_leds 0 0 0 @ [BreatheGreen]"

text \<open>
  Part 2 of \<open>check_status\<close>, the pause block: \<open>None\<close> when the wait never ends,
  else the actions performed and the globals on leaving the block.
\<close>

definition pause_handling :: "rwb_state \<Rightarrow> int list \<Rightarrow> (action list \<times> rwb_state) option" where
  "pause_handling s irq_edges =
     (if paused s then
        (case pause_wait s irq_edges of
           None \<Rightarrow> None
         | Some s' \<Rightarrow> Some (pause_entry @ [Print ''>>> RESUMING'', GreenDuty 65535], s'))
      else Some ([], s))"

text \<open>Part 3 of \<open>check_status\<close>, the battery logic, after the actions \<open>acts\<close>.\<close>

definition battery_logic :: "action list \<Rightarrow> rwb_state \<Rightarrow> int \<Rightarrow> rwb_state outcome" where
  "battery_logic acts s now =
     (case battery_band (total_work_ms s now) of
        CRITICAL \<Rightarrow>
          Exit (acts @ [Print ''CRITICAL BATTERY: Shutdown''] @ dmd_stop @ set_leds 0 0 0
                @ blink_loop [LedRedValue 1] [LedRedValue 0] now (now + 5000))
      | DEGRADED \<Rightarrow> Return acts s (0.25, True)
      | NORMAL \<Rightarrow> Return acts s (0.5, False))"

text \<open>
  \<open>check_status\<close>. Its inputs are the raw button level and the clock reading of the hold
  check, the rising edges that arrive while it waits in the pause block, and the clock
  reading of the battery logic.
\<close>

definition check_status ::
  "rwb_state \<Rightarrow> bool \<Rightarrow> int \<Rightarrow> int list \<Rightarrow> int \<Rightarrow> rwb_state outcome" where
  "check_status s button_value now_hold irq_edges now_battery =
     (case termination_check s button_value now_hold of
        Inl acts \<Rightarrow> Exit acts
      | Inr s1 \<Rightarrow>
          (case pause_handling s1 irq_edges of
             None \<Rightarrow> Blocked pause_entry
           | Some (acts, s2) \<Rightarrow> battery_logic acts s2 now_battery))"

text \<open>The hold check of successive cycles, each with its button level and clock reading.\<close>

fun hold_polls :: "rwb_state \<Rightarrow> (bool \<times> int) list \<Rightarrow> action list + rwb_state" where
  "hold_polls s [] = Inr s"
| "hold_polls s ((b, t) # ps) =
     (case termination_check s b t of Inl acts \<Rightarrow> Inl acts | Inr s' \<Rightarrow> hold_polls s' ps)"


section \<open>main.py\<close>

record main_state =
  paused_m :: bool
  last_button_time_m :: int
  total_paused_time :: int
  pause_start_timestamp :: int
  button_hold_start :: int
  start_time :: int

text \<open>The globals after the module has loaded, line 27 having read the clock at \<open>t0\<close>.\<close>

definition main_init :: "int \<Rightarrow> main_state" where
  "main_init t0 =
     \<lparr>paused_m = False, last_button_time_m = 0, total_paused_time = 0,
      pause_start_timestamp = 0, button_hold_start = 0, start_time = t0\<rparr>"

text \<open>\<open>toggle_pause\<close>, the interrupt handler of main.py.\<close>

definition toggle_pause :: "main_state \<Rightarrow> int \<Rightarrow> main_state" where
  "toggle_pause s current =
     (if ticks_diff current (last_button_time_m s) > 300 then
        (let s1 = s\<lparr>paused_m := \<not> paused_m s, last_button_time_m := current\<rparr> in
         if paused_m s1 then s1\<lparr>pause_start_timestamp := current\<rparr>
         else if pause_start_timestamp s1 \<noteq> 0
           then s1\<lparr>total_paused_time :=
                      total_paused_time s1 + ticks_diff current (pause_start_timestamp s1)\<rparr>
           else s1)
      else s)"

text \<open>Line 111: \<open>ticks_diff(current_time, start_time) - total_paused_time\<close>.\<close>

definition elapsed :: "main_state \<Rightarrow> int \<Rightarrow> int" where
  "elapsed s current_time = ticks_diff current_time (start_time s) - total_paused_time s"

fun pause_wait_m :: "main_state \<Rightarrow> int list \<Rightarrow> main_state option" where
  "pause_wait_m s [] = (if paused_m s then None else Some s)"
| "pause_wait_m s (e # es) = (if paused_m s then pause_wait_m (toggle_pause s e) es else Some s)"

text \<open>Part 1 of \<open>check_battery_and_get_speed\<close>, the pause block.\<close>

definition pause_handling_m ::
  "main_state \<Rightarrow> int list \<Rightarrow> (action list \<times> main_state) option" where
  "pause_handling_m s irq_edges =
     (if paused_m s then
        (case pause_wait_m s irq_edges of
           None \<Rightarrow> None
         | Some s' \<Rightarrow> Some (pause_entry @ [Print ''>>> RESUMING'', GreenDuty 0], s'))
      else Some ([], s))"

text \<open>Part 2 of \<open>check_battery_and_get_speed\<close>, the hold check.\<close>

definition termination_check_m :: "main_state \<Rightarrow> bool \<Rightarrow> int \<Rightarrow> action list + main_state" where
  "termination_check_m s button_value now =
     (if button_value then
        (if button_hold_start s = 0 then Inr (s\<lparr>button_hold_start := now\<rparr>)
         else if ticks_diff now (button_hold_start s) > 3000 then
           Inl ([Print ''System Terminated by User (Hold).''] @ dmd_stop @ dmd_disable
                @ set_leds 0 0 0)
         else Inr s)
      else Inr (s\<lparr>button_hold_start := 0\<rparr>))"

text \<open>Part 3 of \<open>check_battery_and_get_speed\<close>, the battery calculation.\<close>

definition battery_calculation :: "action list \<Rightarrow> main_state \<Rightarrow> int \<Rightarrow> main_state outcome" where
  "battery_calculation acts s current_time =
     (case battery_band (elapsed s current_time) of
        CRITICAL \<Rightarrow>
          Exit (acts @ [Print ''CRITICAL BATTERY: Shutdown''] @ dmd_stop @ set_leds 1 0 0
                @ blink_loop (set_leds 0 0 1) (set_leds 0 0 0) current_time
                    (current_time + 5000))
      | DEGRADED \<Rightarrow> Return acts s (0.25, True)
      | NORMAL \<Rightarrow> Return acts s (0.5, False))"

text \<open>
  \<open>check_battery_and_get_speed\<close>: the pause block comes first, then the hold check, then
  the battery calculation. The inputs are those of \<open>check_status\<close>.
\<close>

definition check_battery_and_get_speed ::
  "main_state \<Rightarrow> bool \<Rightarrow> int \<Rightarrow> int list \<Rightarrow> int \<Rightarrow> main_state outcome" where
  "check_battery_and_get_speed s button_value now_hold irq_edges now_battery =
     (case pause_handling_m s irq_edges of
        None \<Rightarrow> Blocked pause_entry
      | Some (acts, s1) \<Rightarrow>
          (case termination_check_m s1 button_value now_hold of
             Inl stop_acts \<Rightarrow> Exit (acts @ stop_acts)
           | Inr s2 \<Rightarrow> battery_calculation acts s2 now_battery))"


section \<open>Readings used by the properties\<close>

text \<open>
  The edges of a sequence that pass the debounce test of the handlers, \<open>l\<close> being the
  value of \<open>last_button_time\<close> before the sequence; and the sequences all of whose edges
  pass it.
\<close>

fun accepted :: "int \<Rightarrow> int list \<Rightarrow> int list" where
  "accepted l [] = []"
| "accepted l (t # ts) = (if 300 < ticks_diff t l then t # accepted t ts else accepted l ts)"

fun spaced :: "int \<Rightarrow> int list \<Rightarrow> bool" where
  "spaced l [] = True"
| "spaced l (t # ts) = (300 < ticks_diff t l \<and> spaced t ts)"





section \<open>Shared lemmas\<close>

lemma ticks_diff_window: "- (2 ^ 29) \<le> a - b \<Longrightarrow> a - b < 2 ^ 29 \<Longrightarrow> ticks_diff a b = a - b"
  by (simp add: ticks_diff_def)



lemma blink_loop_rounds:
  "100 * int k - 100 < e - now \<Longrightarrow> e - now \<le> 100 * int k \<Longrightarrow>
   blink_loop on off now e = concat (replicate k (on @ [Sleep 50] @ off @ [Sleep 50]))"
proof (induction k arbitrary: now)
  case 0
  then have "\<not> now < e" by simp
  then show ?case by (simp add: blink_loop.simps)
next
  case (Suc k)
  then have lt: "now < e" by simp
  have "blink_loop on off (now + 50 + 50) e
        = concat (replicate k (on @ [Sleep 50] @ off @ [Sleep 50]))"
    using Suc.prems by (intro Suc.IH) simp_all
  with lt show ?case
    by (subst blink_loop.simps) simp
qed

lemma blink_loop_5000:
  "blink_loop on off now (now + 5000) = concat (replicate 50 (on @ [Sleep 50] @ off @ [Sleep 50]))"
  using blink_loop_rounds [of 50 "now + 5000" now on off] by simp


lemma check_status_Return:
  "check_status s b n1 es n2 = Return acts s' d \<Longrightarrow>
   (battery_band (total_work_ms s' n2) = DEGRADED \<and> d = (0.25, True)) \<or>
   (battery_band (total_work_ms s' n2) = NORMAL \<and> d = (0.5, False))"
  by (auto simp: check_status_def battery_logic_def
      split: sum.splits option.splits band.splits prod.splits)

lemma check_battery_Return:
  "check_battery_and_get_speed s b n1 es n2 = Return acts s' d \<Longrightarrow>
   (battery_band (elapsed s' n2) = DEGRADED \<and> d = (0.25, True)) \<or>
   (battery_band (elapsed s' n2) = NORMAL \<and> d = (0.5, False))"
  by (auto simp: check_battery_and_get_speed_def battery_calculation_def
      split: sum.splits option.splits band.splits prod.splits)

lemma spaced_accepted: "spaced l ts \<Longrightarrow> accepted l ts = ts"
  by (induction ts arbitrary: l) auto

lemma spaced_take: "spaced l ts \<Longrightarrow> spaced l (take k ts)"
  by (induction ts arbitrary: l k) (auto simp: take_Cons split: nat.splits)

lemma toggle_pause_irq_accept:
  "300 < ticks_diff t (last_button_time s) \<Longrightarrow>
   paused (toggle_pause_irq s t) = (\<not> paused s) \<and> last_button_time (toggle_pause_irq s t) = t"
  by (simp add: toggle_pause_irq_def)

lemma toggle_pause_irq_reject:
  "ticks_diff t (last_button_time s) \<le> 300 \<Longrightarrow> toggle_pause_irq s t = s"
  by (simp add: toggle_pause_irq_def)

lemma toggle_pause_accept:
  "300 < ticks_diff t (last_button_time_m s) \<Longrightarrow>
   paused_m (toggle_pause s t) = (\<not> paused_m s) \<and> last_button_time_m (toggle_pause s t) = t"
  by (simp add: toggle_pause_def Let_def)

lemma toggle_pause_reject:
  "ticks_diff t (last_button_time_m s) \<le> 300 \<Longrightarrow> toggle_pause s t = s"
  by (simp add: toggle_pause_def)

lemma paused_foldl_irq:
  "paused (foldl toggle_pause_irq s ts)
     = (paused s \<noteq> odd (length (accepted (last_button_time s) ts)))"
proof (induction ts arbitrary: s)
  case Nil
  show ?case by simp
next
  case (Cons t ts)
  show ?case
  proof (cases "300 < ticks_diff t (last_button_time s)")
    case True
    with toggle_pause_irq_accept [OF True] Cons.IH [of "toggle_pause_irq s t"]
    show ?thesis by auto
  next
    case False
    then have "toggle_pause_irq s t = s" by (simp add: toggle_pause_irq_reject)
    with False Cons.IH [of s] show ?thesis by simp
  qed
qed

lemma paused_foldl_m:
  "paused_m (foldl toggle_pause s ts)
     = (paused_m s \<noteq> odd (length (accepted (last_button_time_m s) ts)))"
proof (induction ts arbitrary: s)
  case Nil
  show ?case by simp
next
  case (Cons t ts)
  show ?case
  proof (cases "300 < ticks_diff t (last_button_time_m s)")
    case True
    with toggle_pause_accept [OF True] Cons.IH [of "toggle_pause s t"]
    show ?thesis by auto
  next
    case False
    then have "toggle_pause s t = s" by (simp add: toggle_pause_reject)
    with False Cons.IH [of s] show ?thesis by simp
  qed
qed






section \<open>Battery bands\<close>

text \<open>
  C1, as the spec states it, puts 45000 ms in the DEGRADED band and 55000 ms in the
  CRITICAL band. Both resolvers compare with \<open>>\<close>: a work time of exactly 45000 ms is
  still NORMAL (speed 0.5, no blue flag) and exactly 55000 ms is still DEGRADED
  (speed 0.25, blue flag), in \<open>check_status\<close> and in \<open>check_battery_and_get_speed\<close>.
\<close>

theorem battery_band_boundary_counterexample:
  "battery_band 45000 = NORMAL \<and> battery_band 55000 = DEGRADED \<and>
   check_status (rwb_init 0) False 45000 [] 45000 = Return [] (rwb_init 0) (0.5, False) \<and>
   check_status (rwb_init 0) False 55000 [] 55000 = Return [] (rwb_init 0) (0.25, True) \<and>
   check_battery_and_get_speed (main_init 0) False 45000 [] 45000
     = Return [] (main_init 0) (0.5, False) \<and>
   check_battery_and_get_speed (main_init 0) False 55000 [] 55000
     = Return [] (main_init 0) (0.25, True)"
  by (simp add: battery_band_def check_status_def rwb_init_def termination_check_def
      pause_handling_def battery_logic_def total_work_ms_def ticks_diff_def
      check_battery_and_get_speed_def main_init_def termination_check_m_def
      pause_handling_m_def battery_calculation_def elapsed_def)

text \<open>
  C1, amended: for every work time \<open>t\<close> the band is NORMAL exactly when \<open>t \<le> 45000\<close>,
  DEGRADED exactly when \<open>45000 < t \<le> 55000\<close> and CRITICAL exactly when \<open>55000 < t\<close>; the
  battery part of each resolver returns \<open>(0.5, False)\<close>, returns \<open>(0.25, True)\<close> or exits
  on exactly these three ranges of its work time.
\<close>

theorem battery_band_thresholds:
  "(battery_band t = NORMAL \<longleftrightarrow> t \<le> 45000) \<and>
   (battery_band t = DEGRADED \<longleftrightarrow> 45000 < t \<and> t \<le> 55000) \<and>
   (battery_band t = CRITICAL \<longleftrightarrow> 55000 < t) \<and>
   (battery_logic acts s now = Return acts s (0.5, False) \<longleftrightarrow> total_work_ms s now \<le> 45000) \<and>
   (battery_logic acts s now = Return acts s (0.25, True)
      \<longleftrightarrow> 45000 < total_work_ms s now \<and> total_work_ms s now \<le> 55000) \<and>
   ((\<exists>tr. battery_logic acts s now = Exit tr) \<longleftrightarrow> 55000 < total_work_ms s now) \<and>
   (battery_calculation acts m now = Return acts m (0.5, False) \<longleftrightarrow> elapsed m now \<le> 45000) \<and>
   (battery_calculation acts m now = Return acts m (0.25, True)
      \<longleftrightarrow> 45000 < elapsed m now \<and> elapsed m now \<le> 55000) \<and>
   ((\<exists>tr. battery_calculation acts m now = Exit tr) \<longleftrightarrow> 55000 < elapsed m now)"
  by (simp add: battery_band_def battery_logic_def battery_calculation_def)


section \<open>Decisions\<close>

text \<open>
  C7: when a resolver returns, its decision is the one of the band of the work time it
  computed: in the DEGRADED band exactly speed 0.25 with the blue flag set, in the NORMAL
  band exactly speed 0.5 with the blue flag clear. The work time is read from the globals
  the call returns with, at the clock reading of its battery part.
\<close>

theorem decision_by_band:
  "(check_status s b n1 es n2 = Return acts s' d \<longrightarrow>
      (battery_band (total_work_ms s' n2) = DEGRADED \<longrightarrow> d = (0.25, True)) \<and>
      (battery_band (total_work_ms s' n2) = NORMAL \<longrightarrow> d = (0.5, False))) \<and>
   (check_battery_and_get_speed m b n1 es n2 = Return acts m' d' \<longrightarrow>
      (battery_band (elapsed m' n2) = DEGRADED \<longrightarrow> d' = (0.25, True)) \<and>
      (battery_band (elapsed m' n2) = NORMAL \<longrightarrow> d' = (0.5, False)))"
  using check_status_Return [of s b n1 es n2 acts s' d]
    check_battery_Return [of m b n1 es n2 acts m' d']
  by auto

text \<open>C7 at work times of 50000 ms and 100 ms, from the initial globals of each program.\<close>

theorem decision_by_band_witness:
  "check_status (rwb_init 0) False 50000 [] 50000 = Return [] (rwb_init 0) (0.25, True) \<and>
   battery_band (total_work_ms (rwb_init 0) 50000) = DEGRADED \<and>
   check_status (rwb_init 0) False 100 [] 100 = Return [] (rwb_init 0) (0.5, False) \<and>
   battery_band (total_work_ms (rwb_init 0) 100) = NORMAL \<and>
   check_battery_and_get_speed (main_init 0) False 50000 [] 50000
     = Return [] (main_init 0) (0.25, True) \<and>
   battery_band (elapsed (main_init 0) 50000) = DEGRADED \<and>
   check_battery_and_get_speed (main_init 0) False 100 [] 100
     = Return [] (main_init 0) (0.5, False) \<and>
   battery_band (elapsed (main_init 0) 100) = NORMAL"
  using
    decision_by_band [where s = "rwb_init 0" and b = False and ?n1.0 = 50000 and es = "[]"
      and ?n2.0 = 50000 and acts = "[]" and s' = "rwb_init 0" and d = "(0.25, True)"
      and m = "main_init 0" and m' = "main_init 0" and d' = "(0.25, True)"]
    decision_by_band [where s = "rwb_init 0" and b = False and ?n1.0 = 100 and es = "[]"
      and ?n2.0 = 100 and acts = "[]" and s' = "rwb_init 0" and d = "(0.5, False)"
      and m = "main_init 0" and m' = "main_init 0" and d' = "(0.5, False)"]
  by (simp add: rwb_init_def main_init_def check_status_def termination_check_def
      pause_handling_def battery_logic_def total_work_ms_def ticks_diff_def battery_band_def
      check_battery_and_get_speed_def pause_handling_m_def termination_check_m_def
      battery_calculation_def elapsed_def)

text \<open>
  C9: every pair a resolver returns is \<open>(0.5, False)\<close> or \<open>(0.25, True)\<close>; the speed lies
  in \<open>[0, 1]\<close>, and the blue flag is set exactly when the speed is 0.25.
\<close>

theorem returned_pairs:
  "(check_status s b n1 es n2 = Return acts s' (speed, blue) \<longrightarrow>
      ((speed, blue) = (0.5, False) \<or> (speed, blue) = (0.25, True)) \<and>
      0 \<le> speed \<and> speed \<le> 1 \<and> (blue \<longleftrightarrow> speed = 0.25)) \<and>
   (check_battery_and_get_speed m b n1 es n2 = Return acts m' (speed', blue') \<longrightarrow>
      ((speed', blue') = (0.5, False) \<or> (speed', blue') = (0.25, True)) \<and>
      0 \<le> speed' \<and> speed' \<le> 1 \<and> (blue' \<longleftrightarrow> speed' = 0.25))"
  using check_status_Return [of s b n1 es n2 acts s' "(speed, blue)"]
    check_battery_Return [of m b n1 es n2 acts m' "(speed', blue')"]
  by auto

text \<open>C9 at one returning call of each program.\<close>

theorem returned_pairs_witness:
  "check_status (rwb_init 0) False 50000 [] 50000 = Return [] (rwb_init 0) (0.25, True) \<and>
   (0::real) \<le> 0.25 \<and> (0.25::real) \<le> 1 \<and>
   check_battery_and_get_speed (main_init 0) False 100 [] 100
     = Return [] (main_init 0) (0.5, False) \<and>
   (0::real) \<le> 0.5 \<and> (0.5::real) \<le> 1 \<and> (0.5::real) \<noteq> 0.25"
  using
    returned_pairs [where s = "rwb_init 0" and b = False and ?n1.0 = 50000 and es = "[]"
      and ?n2.0 = 50000 and acts = "[]" and s' = "rwb_init 0" and speed = "0.25" and blue = True
      and m = "main_init 0" and m' = "main_init 0" and speed' = "0.25" and blue' = True]
    returned_pairs [where s = "rwb_init 0" and b = False and ?n1.0 = 100 and es = "[]"
      and ?n2.0 = 100 and acts = "[]" and s' = "rwb_init 0" and speed = "0.5" and blue = False
      and m = "main_init 0" and m' = "main_init 0" and speed' = "0.5" and blue' = False]
  by (simp add: rwb_init_def main_init_def check_status_def termination_check_def
      pause_handling_def battery_logic_def total_work_ms_def ticks_diff_def battery_band_def
      check_battery_and_get_speed_def pause_handling_m_def termination_check_m_def
      battery_calculation_def elapsed_def)


section \<open>Order of the checks\<close>

text \<open>
  C2, as the spec states it, has every resolver run the hold check before the pause check.
  \<open>check_battery_and_get_speed\<close> of main.py runs its pause block first: called with the
  pause flag set and the button held for 3999 ms, it stops the motors, blanks the LEDs
  and waits in the breathing loop; with no further rising edge it never reaches the hold
  check.
\<close>

theorem hold_while_paused_counterexample:
  "3000 < ticks_diff 5000 1001 \<and>
   check_battery_and_get_speed
     \<lparr>paused_m = True, last_button_time_m = 1000, total_paused_time = 0,
      pause_start_timestamp = 1000, button_hold_start = 1001, start_time = 0\<rparr>
     True 5000 [] 5000
   = Blocked [Print ''>>> PAUSED'', LeftMotorStop, RightMotorStop,
              LedRedValue 0, LedBlueValue 0, GreenDuty 0, BreatheGreen]"
  by (simp add: check_battery_and_get_speed_def pause_handling_m_def pause_entry_def
      dmd_stop_def set_leds_def ticks_diff_def)

text \<open>
  C2, amended. In \<open>check_status\<close> of real\_wall\_bouncer.py the hold check comes first: when
  the button reads pressed with a press on record for more than 3000 ms, the call shuts
  down and exits, whatever the pause flag and the work time are. In
  \<open>check_battery_and_get_speed\<close> of main.py the pause block comes first: called with the
  pause flag set it enters the pause behaviour, and it waits there for ever when no
  rising edge resumes it; the hold check runs once the pause block is left, and then
  before the battery calculation.
\<close>

theorem hold_check_order:
  "(button_press_start s \<noteq> 0 \<and> 3000 < ticks_diff now (button_press_start s) \<longrightarrow>
      check_status s True now edges now_b =
        Exit ([Print ''System Terminated by User (Hold).''] @ dmd_stop @ dmd_disable
              @ set_leds 0 0 0)) \<and>
   (paused_m m \<and> pause_wait_m m edges = None \<longrightarrow>
      check_battery_and_get_speed m b now edges now_b = Blocked pause_entry) \<and>
   (paused_m m \<and> pause_wait_m m edges = Some m' \<and> button_hold_start m' \<noteq> 0 \<and>
    3000 < ticks_diff now (button_hold_start m') \<longrightarrow>
      check_battery_and_get_speed m True now edges now_b =
        Exit (pause_entry @ [Print ''>>> RESUMING'', GreenDuty 0]
              @ [Print ''System Terminated by User (Hold).''] @ dmd_stop @ dmd_disable
              @ set_leds 0 0 0)) \<and>
   (\<not> paused_m m \<and> button_hold_start m \<noteq> 0 \<and> 3000 < ticks_diff now (button_hold_start m) \<longrightarrow>
      check_battery_and_get_speed m True now edges now_b =
        Exit ([Print ''System Terminated by User (Hold).''] @ dmd_stop @ dmd_disable
              @ set_leds 0 0 0))"
  by (simp add: check_status_def termination_check_def check_battery_and_get_speed_def
      pause_handling_m_def termination_check_m_def)

text \<open>
  C2, amended, at a button held since clock 1001 and read at clock 5000: with the pause
  flag set in real\_wall\_bouncer.py, with it set in main.py and no edge, with it set in
  main.py and a resuming edge at 4900, and with it clear in main.py.
\<close>

theorem hold_check_order_witness:
  "3000 < ticks_diff 5000 1001 \<and>
   check_status
     \<lparr>paused = True, work_accumulated_time = 1000, session_start_time = 0,
      last_button_time = 1000, button_press_start = 1001\<rparr> True 5000 [] 5000
   = Exit [Print ''System Terminated by User (Hold).'', LeftMotorStop, RightMotorStop,
           StbyPinOff, LedRedValue 0, LedBlueValue 0, GreenDuty 0] \<and>
   check_battery_and_get_speed
     \<lparr>paused_m = True, last_button_time_m = 1000, total_paused_time = 0,
      pause_start_timestamp = 1000, button_hold_start = 1001, start_time = 0\<rparr>
     True 5000 [] 5000
   = Blocked pause_entry \<and>
   check_battery_and_get_speed
     \<lparr>paused_m = True, last_button_time_m = 1000, total_paused_time = 0,
      pause_start_timestamp = 1000, button_hold_start = 1001, start_time = 0\<rparr>
     True 5000 [4900] 5000
   = Exit ([Print ''>>> PAUSED'', LeftMotorStop, RightMotorStop,
            LedRedValue 0, LedBlueValue 0, GreenDuty 0, BreatheGreen,
            Print ''>>> RESUMING'', GreenDuty 0,
            Print ''System Terminated by User (Hold).'', LeftMotorStop, RightMotorStop,
            StbyPinOff, LedRedValue 0, LedBlueValue 0, GreenDuty 0]) \<and>
   check_battery_and_get_speed
     \<lparr>paused_m = False, last_button_time_m = 0, total_paused_time = 0,
      pause_start_timestamp = 0, button_hold_start = 1001, start_time = 0\<rparr>
     True 5000 [] 5000
   = Exit [Print ''System Terminated by User (Hold).'', LeftMotorStop, RightMotorStop,
           StbyPinOff, LedRedValue 0, LedBlueValue 0, GreenDuty 0]"
  using
    hold_check_order [where s = "\<lparr>paused = True, work_accumulated_time = 1000,
        session_start_time = 0, last_button_time = 1000, button_press_start = 1001\<rparr>"
      and now = 5000 and edges = "[]" and now_b = 5000 and b = True
      and m = "\<lparr>paused_m = True, last_button_time_m = 1000, total_paused_time = 0,
        pause_start_timestamp = 1000, button_hold_start = 1001, start_time = 0\<rparr>"]
    hold_check_order [where now = 5000 and edges = "[4900]" and now_b = 5000
      and m = "\<lparr>paused_m = True, last_button_time_m = 1000, total_paused_time = 0,
        pause_start_timestamp = 1000, button_hold_start = 1001, start_time = 0\<rparr>"
      and m' = "\<lparr>paused_m = False, last_button_time_m = 4900, total_paused_time = 3900,
        pause_start_timestamp = 1000, button_hold_start = 1001, start_time = 0\<rparr>"]
    hold_check_order [where now = 5000 and edges = "[]" and now_b = 5000
      and m = "\<lparr>paused_m = False, last_button_time_m = 0, total_paused_time = 0,
        pause_start_timestamp = 0, button_hold_start = 1001, start_time = 0\<rparr>"]
  by (simp add: ticks_diff_def toggle_pause_def pause_entry_def dmd_stop_def dmd_disable_def
      set_leds_def)


section \<open>Critical battery shutdown\<close>

text \<open>
  In real\_wall\_bouncer.py the critical branch does what C3 says: it stops both motors,
  blanks the three LEDs, switches the red LED on and off fifty times with 50 ms after each
  write (100 ms a round, 5000 ms in all), and exits.
\<close>

lemma check_status_critical_sequence:
  "55000 < total_work_ms s now \<Longrightarrow>
   battery_logic acts s now =
     Exit (acts @ [Print ''CRITICAL BATTERY: Shutdown''] @ dmd_stop @ set_leds 0 0 0
           @ concat (replicate 50 [LedRedValue 1, Sleep 50, LedRedValue 0, Sleep 50]))"
  by (simp add: battery_logic_def battery_band_def blink_loop_5000)

text \<open>
  C3 in main.py, at a work time of 55001 ms from the initial globals: after stopping the
  motors the program switches the red LED on instead of blanking the LEDs, and the fifty
  rounds of its blink loop switch the blue LED on and off, the red one staying off.
\<close>

theorem critical_shutdown_main_blinks_blue:
  "check_battery_and_get_speed (main_init 0) False 55001 [] 55001 =
     Exit ([Print ''CRITICAL BATTERY: Shutdown'', LeftMotorStop, RightMotorStop,
            LedRedValue 1, LedBlueValue 0, GreenDuty 0]
           @ concat (replicate 50
               [LedRedValue 0, LedBlueValue 1, GreenDuty 0, Sleep 50,
                LedRedValue 0, LedBlueValue 0, GreenDuty 0, Sleep 50]))"
proof -
  have "blink_loop (set_leds 0 0 1) (set_leds 0 0 0) 55001 (55001 + 5000) =
        concat (replicate 50 (set_leds 0 0 1 @ [Sleep 50] @ set_leds 0 0 0 @ [Sleep 50]))"
    by (rule blink_loop_5000)
  then show ?thesis
    by (simp add: check_battery_and_get_speed_def main_init_def pause_handling_m_def
        termination_check_m_def battery_calculation_def elapsed_def ticks_diff_def
        battery_band_def dmd_stop_def set_leds_def)
qed


section \<open>Work time\<close>




text \<open>
  C8, as the spec states it, has a negative clock delta count as zero. Neither program
  clamps: with 46000 ms banked and a clock reading 2000 ms before the session start,
  \<open>check_status\<close> computes 44000 ms and returns \<open>(0.5, False)\<close>, where a session of zero
  length gives 46000 ms and \<open>(0.25, True)\<close>; \<open>elapsed\<close> of main.py is negative when the
  clock reads less than \<open>start_time\<close>.
\<close>

theorem negative_duration_counterexample:
  "ticks_diff 8000 10000 < 0 \<and>
   total_work_ms \<lparr>paused = False, work_accumulated_time = 46000, session_start_time = 10000,
      last_button_time = 10000, button_press_start = 0\<rparr> 8000 = 44000 \<and>
   check_status \<lparr>paused = False, work_accumulated_time = 46000, session_start_time = 10000,
      last_button_time = 10000, button_press_start = 0\<rparr> False 8000 [] 8000
   = Return [] \<lparr>paused = False, work_accumulated_time = 46000, session_start_time = 10000,
      last_button_time = 10000, button_press_start = 0\<rparr> (0.5, False) \<and>
   check_status \<lparr>paused = False, work_accumulated_time = 46000, session_start_time = 10000,
      last_button_time = 10000, button_press_start = 0\<rparr> False 10000 [] 10000
   = Return [] \<lparr>paused = False, work_accumulated_time = 46000, session_start_time = 10000,
      last_button_time = 10000, button_press_start = 0\<rparr> (0.25, True) \<and>
   elapsed (main_init 10000) 8000 = - 2000"
  by (simp add: ticks_diff_def total_work_ms_def check_status_def termination_check_def
      pause_handling_def battery_logic_def battery_band_def elapsed_def main_init_def)

text \<open>
  C8, amended: a negative clock delta enters the sums as it is. The work time a resolver
  computes is then smaller than with a session of zero length, by the size of the delta,
  and the decision is the one of the band of this smaller value; a session or a pause of
  negative length lowers the banked work time or the banked pause time by its size.
\<close>

theorem negative_duration_propagates:
  "(ticks_diff now (session_start_time s) < 0 \<longrightarrow>
      total_work_ms s now = work_accumulated_time s + ticks_diff now (session_start_time s) \<and>
      total_work_ms s now < work_accumulated_time s \<and>
      (battery_logic acts s now = Return acts s (0.5, False)
         \<longleftrightarrow> work_accumulated_time s + ticks_diff now (session_start_time s) \<le> 45000) \<and>
      (battery_logic acts s now = Return acts s (0.25, True)
         \<longleftrightarrow> 45000 < work_accumulated_time s + ticks_diff now (session_start_time s) \<and>
             work_accumulated_time s + ticks_diff now (session_start_time s) \<le> 55000)) \<and>
   (\<not> paused s \<and> 300 < ticks_diff t (last_button_time s) \<and>
    ticks_diff t (session_start_time s) < 0 \<longrightarrow>
      work_accumulated_time (toggle_pause_irq s t) < work_accumulated_time s) \<and>
   (ticks_diff now (start_time m) < 0 \<longrightarrow>
      elapsed m now = ticks_diff now (start_time m) - total_paused_time m \<and>
      elapsed m now < - total_paused_time m \<and>
      (battery_calculation acts m now = Return acts m (0.5, False)
         \<longleftrightarrow> ticks_diff now (start_time m) - total_paused_time m \<le> 45000) \<and>
      (battery_calculation acts m now = Return acts m (0.25, True)
         \<longleftrightarrow> 45000 < ticks_diff now (start_time m) - total_paused_time m \<and>
             ticks_diff now (start_time m) - total_paused_time m \<le> 55000)) \<and>
   (paused_m m \<and> 300 < ticks_diff t (last_button_time_m m) \<and> pause_start_timestamp m \<noteq> 0 \<and>
    ticks_diff t (pause_start_timestamp m) < 0 \<longrightarrow>
      total_paused_time (toggle_pause m t) < total_paused_time m)"
  by (simp add: total_work_ms_def elapsed_def battery_logic_def battery_calculation_def
      battery_band_def toggle_pause_irq_def toggle_pause_def Let_def)

text \<open>C8, amended, at clock readings 2000 ms before the start of the session or pause.\<close>

theorem negative_duration_propagates_witness:
  "ticks_diff 8000 10000 < 0 \<and>
   total_work_ms \<lparr>paused = False, work_accumulated_time = 46000, session_start_time = 10000,
      last_button_time = 7000, button_press_start = 0\<rparr> 8000 = 44000 \<and>
   battery_logic [] \<lparr>paused = False, work_accumulated_time = 46000, session_start_time = 10000,
      last_button_time = 7000, button_press_start = 0\<rparr> 8000
   = Return [] \<lparr>paused = False, work_accumulated_time = 46000, session_start_time = 10000,
      last_button_time = 7000, button_press_start = 0\<rparr> (0.5, False) \<and>
   work_accumulated_time (toggle_pause_irq \<lparr>paused = False, work_accumulated_time = 46000,
      session_start_time = 10000, last_button_time = 7000, button_press_start = 0\<rparr> 8000)
   = 44000 \<and>
   elapsed (main_init 10000) 8000 = - 2000 \<and>
   battery_calculation [] (main_init 10000) 8000 = Return [] (main_init 10000) (0.5, False) \<and>
   total_paused_time (toggle_pause \<lparr>paused_m = True, last_button_time_m = 7000,
      total_paused_time = 0, pause_start_timestamp = 10000, button_hold_start = 0,
      start_time = 0\<rparr> 8000) = - 2000"
  using negative_duration_propagates
    [where now = 8000 and t = 8000 and acts = "[]"
      and s = "\<lparr>paused = False, work_accumulated_time = 46000, session_start_time = 10000,
        last_button_time = 7000, button_press_start = 0\<rparr>"
      and m = "main_init 10000"]
    negative_duration_propagates
    [where now = 8000 and t = 8000 and acts = "[]"
      and s = "\<lparr>paused = False, work_accumulated_time = 46000, session_start_time = 10000,
        last_button_time = 7000, button_press_start = 0\<rparr>"
      and m = "\<lparr>paused_m = True, last_button_time_m = 7000,
        total_paused_time = 0, pause_start_timestamp = 10000, button_hold_start = 0,
        start_time = 0\<rparr>"]
  by (simp add: ticks_diff_def main_init_def total_work_ms_def elapsed_def toggle_pause_irq_def
      toggle_pause_def Let_def battery_logic_def battery_calculation_def battery_band_def)


section \<open>Debounce\<close>

text \<open>
  C5, as the spec states it, has every edge more than 300 ms after the last accepted one
  toggle, the flag running PAUSED, RUNNING, PAUSED along edges spaced more than 300 ms
  apart. Both handlers start \<open>last_button_time\<close> at 0 and measure with \<open>ticks_diff\<close>:
  a first edge at clock 200 is ignored although no edge was accepted before it, so along
  the edges 200, 600, 1000 the flag runs RUNNING, PAUSED, RUNNING; and an edge
  536871212 ms (\<open>2 ^ 29 + 300\<close>) after the accepted edge at 1000 is ignored, the wrapped
  difference being negative.
\<close>

theorem debounce_first_edge_counterexample:
  "\<not> paused (foldl toggle_pause_irq (rwb_init 0) [200]) \<and>
   paused (foldl toggle_pause_irq (rwb_init 0) [200, 600]) \<and>
   \<not> paused (foldl toggle_pause_irq (rwb_init 0) [200, 600, 1000]) \<and>
   \<not> paused_m (foldl toggle_pause (main_init 0) [200]) \<and>
   paused_m (foldl toggle_pause (main_init 0) [200, 600]) \<and>
   \<not> paused_m (foldl toggle_pause (main_init 0) [200, 600, 1000]) \<and>
   (300 :: int) < 536872212 - 1000 \<and>
   toggle_pause_irq (toggle_pause_irq (rwb_init 0) 1000) 536872212
     = toggle_pause_irq (rwb_init 0) 1000 \<and>
   toggle_pause (toggle_pause (main_init 0) 1000) 536872212 = toggle_pause (main_init 0) 1000"
  by (simp add: rwb_init_def main_init_def toggle_pause_irq_def toggle_pause_def
      ticks_diff_def Let_def)

text \<open>
  C5, amended. The time of the last accepted edge is \<open>last_button_time\<close>, which is 0
  until an edge has been accepted, and the distance of an edge from it is
  \<open>ticks_diff(now, last_button_time)\<close>, equal to the difference of the two readings while
  that lies in \<open>[- 2 ^ 29, 2 ^ 29)\<close>. An edge whose distance is more than 300 flips the
  pause flag and becomes the last accepted edge; an edge whose distance is at most 300
  leaves all globals as they are. So after any sequence of edges the flag has flipped
  once for each accepted edge, and along a sequence whose edges are all accepted, started
  when running, the flag alternates strictly: set after an odd number of edges, clear
  after an even number.
\<close>

theorem debounce_toggles:
  "(- (2 ^ 29) \<le> t - l \<and> t - l < 2 ^ 29 \<longrightarrow> ticks_diff t l = t - l) \<and>
   (300 < ticks_diff t (last_button_time s) \<longrightarrow>
      paused (toggle_pause_irq s t) = (\<not> paused s) \<and>
      last_button_time (toggle_pause_irq s t) = t) \<and>
   (ticks_diff t (last_button_time s) \<le> 300 \<longrightarrow> toggle_pause_irq s t = s) \<and>
   paused (foldl toggle_pause_irq s ts)
     = (paused s \<noteq> odd (length (accepted (last_button_time s) ts))) \<and>
   (\<not> paused s \<and> spaced (last_button_time s) ts \<and> k \<le> length ts \<longrightarrow>
      paused (foldl toggle_pause_irq s (take k ts)) = odd k) \<and>
   (300 < ticks_diff t (last_button_time_m m) \<longrightarrow>
      paused_m (toggle_pause m t) = (\<not> paused_m m) \<and>
      last_button_time_m (toggle_pause m t) = t) \<and>
   (ticks_diff t (last_button_time_m m) \<le> 300 \<longrightarrow> toggle_pause m t = m) \<and>
   paused_m (foldl toggle_pause m ts)
     = (paused_m m \<noteq> odd (length (accepted (last_button_time_m m) ts))) \<and>
   (\<not> paused_m m \<and> spaced (last_button_time_m m) ts \<and> k \<le> length ts \<longrightarrow>
      paused_m (foldl toggle_pause m (take k ts)) = odd k)"
proof -
  have a: "paused (foldl toggle_pause_irq s (take k ts)) = odd k"
    if "\<not> paused s" "spaced (last_button_time s) ts" "k \<le> length ts"
    using that spaced_accepted [OF spaced_take [of "last_button_time s" ts k]]
    by (simp add: paused_foldl_irq)
  have b: "paused_m (foldl toggle_pause m (take k ts)) = odd k"
    if "\<not> paused_m m" "spaced (last_button_time_m m) ts" "k \<le> length ts"
    using that spaced_accepted [OF spaced_take [of "last_button_time_m m" ts k]]
    by (simp add: paused_foldl_m)
  show ?thesis
    using a b toggle_pause_irq_accept [of t s] toggle_pause_irq_reject [of t s]
      toggle_pause_accept [of t m] toggle_pause_reject [of t m]
      paused_foldl_irq [of s ts] paused_foldl_m [of m ts] ticks_diff_window [of t l]
    by blast
qed

text \<open>
  C5, amended, on edges at 400, 800, 1200, 1600 ms, and with bounces 100 ms after two of
  them.
\<close>

theorem debounce_toggles_witness:
  "ticks_diff 301 0 = 301 \<and>
   300 < ticks_diff 301 (last_button_time (rwb_init 0)) \<and>
   paused (toggle_pause_irq (rwb_init 0) 301) \<and>
   ticks_diff 300 (last_button_time (rwb_init 0)) \<le> 300 \<and>
   toggle_pause_irq (rwb_init 0) 300 = rwb_init 0 \<and>
   spaced (last_button_time (rwb_init 0)) [400, 800, 1200, 1600] \<and>
   paused (foldl toggle_pause_irq (rwb_init 0) (take 3 [400, 800, 1200, 1600])) \<and>
   \<not> paused (foldl toggle_pause_irq (rwb_init 0) [400, 500, 800, 900, 1200, 1600]) \<and>
   paused_m (toggle_pause (main_init 0) 301) \<and>
   toggle_pause (main_init 0) 300 = main_init 0 \<and>
   paused_m (foldl toggle_pause (main_init 0) (take 3 [400, 800, 1200, 1600]))"
  using debounce_toggles [of 301 0 "rwb_init 0" "[400, 800, 1200, 1600]" 3 "main_init 0"]
    debounce_toggles [of 300 0 "rwb_init 0" "[400, 500, 800, 900, 1200, 1600]" 0 "main_init 0"]
  by (simp add: rwb_init_def main_init_def ticks_diff_def)


section \<open>Hold detector\<close>

text \<open>
  A poll that reads the button released clears the press on record, whatever it was; and
  a press first seen at a clock reading other than 0 ends the program at the first poll
  more than 3000 ms later, not at 3000 ms.
\<close>

lemma release_clears_press:
  "termination_check s False now = Inr (s\<lparr>button_press_start := 0\<rparr>) \<and>
   termination_check_m m False now = Inr (m\<lparr>button_hold_start := 0\<rparr>)"
  by (simp add: termination_check_def termination_check_m_def)

lemma hold_nonzero_clock:
  "button_press_start s = 0 \<Longrightarrow> c \<noteq> 0 \<Longrightarrow>
   hold_polls s [(True, c), (True, c + 3000)] = Inr (s\<lparr>button_press_start := c\<rparr>) \<and>
   hold_polls s [(True, c), (True, c + 3001)]
     = Inl ([Print ''System Terminated by User (Hold).''] @ dmd_stop @ dmd_disable
            @ set_leds 0 0 0)"
  by (simp add: termination_check_def ticks_diff_def)

text \<open>
  With a press on record, a run of pressed polls terminates exactly when one of them is
  more than 3000 ms after the recorded reading.
\<close>

lemma hold_polls_pressed_run:
  "button_press_start s \<noteq> 0 \<Longrightarrow>
   hold_polls s (map (Pair True) ts) =
     (if \<exists>t \<in> set ts. 3000 < ticks_diff t (button_press_start s)
      then Inl ([Print ''System Terminated by User (Hold).''] @ dmd_stop @ dmd_disable
                @ set_leds 0 0 0)
      else Inr s)"
  by (induction ts) (auto simp: termination_check_def)

text \<open>
  C6 with the press first seen at clock reading 0: the poll at 0 records 0, which is also
  the value for no press on record, so the poll at 3001 ms records 3001 and returns
  \<open>(0.5, False)\<close>; neither program terminates on that cycle.
\<close>

theorem hold_from_clock_zero:
  "hold_polls (rwb_init 0) [(True, 0), (True, 3001)]
     = Inr ((rwb_init 0)\<lparr>button_press_start := 3001\<rparr>) \<and>
   check_status (rwb_init 0) True 0 [] 0 = Return [] (rwb_init 0) (0.5, False) \<and>
   check_status (rwb_init 0) True 3001 [] 3001
     = Return [] ((rwb_init 0)\<lparr>button_press_start := 3001\<rparr>) (0.5, False) \<and>
   check_battery_and_get_speed (main_init 0) True 0 [] 0 = Return [] (main_init 0) (0.5, False) \<and>
   check_battery_and_get_speed (main_init 0) True 3001 [] 3001
     = Return [] ((main_init 0)\<lparr>button_hold_start := 3001\<rparr>) (0.5, False)"
  by (simp add: rwb_init_def main_init_def termination_check_def check_status_def
      pause_handling_def battery_logic_def total_work_ms_def ticks_diff_def battery_band_def
      check_battery_and_get_speed_def pause_handling_m_def termination_check_m_def
      battery_calculation_def elapsed_def)

text \<open>
  C10, as stated, has a press first seen at clock reading 0 never terminate. It does:
  the poll at 50 ms finds no press on record and records 50, and the poll at 3051 ms
  shuts down and exits.
\<close>

theorem clock_zero_press_terminates_counterexample:
  "hold_polls (rwb_init 0) [(True, 0), (True, 50), (True, 3051)] =
     Inl [Print ''System Terminated by User (Hold).'', LeftMotorStop, RightMotorStop,
          StbyPinOff, LedRedValue 0, LedBlueValue 0, GreenDuty 0] \<and>
   check_status ((rwb_init 0)\<lparr>button_press_start := 50\<rparr>) True 3051 [] 3051 =
     Exit [Print ''System Terminated by User (Hold).'', LeftMotorStop, RightMotorStop,
          StbyPinOff, LedRedValue 0, LedBlueValue 0, GreenDuty 0]"
  by (simp add: rwb_init_def termination_check_def ticks_diff_def dmd_stop_def
      dmd_disable_def set_leds_def check_status_def)

text \<open>
  C10, amended: the hold check uses 0 for no press on record. A pressed poll at clock
  reading 0 with no press on record leaves the globals as they are; the next pressed poll,
  at a reading \<open>t1\<close> other than 0, records \<open>t1\<close>; and a pressed poll at \<open>t2\<close> after that
  terminates exactly when \<open>ticks_diff(t2, t1) > 3000\<close>. The hold is timed from the second poll:
  termination is late by the distance of the two polls, not lost.
\<close>

theorem sentinel_delays_hold:
  "(button_press_start s = 0 \<and> t1 \<noteq> 0 \<longrightarrow>
      termination_check s True 0 = Inr s \<and>
      termination_check s True t1 = Inr (s\<lparr>button_press_start := t1\<rparr>) \<and>
      hold_polls s [(True, 0), (True, t1), (True, t2)] =
        (if 3000 < ticks_diff t2 t1
         then Inl ([Print ''System Terminated by User (Hold).''] @ dmd_stop @ dmd_disable
                   @ set_leds 0 0 0)
         else Inr (s\<lparr>button_press_start := t1\<rparr>))) \<and>
   (button_hold_start m = 0 \<and> t1 \<noteq> 0 \<longrightarrow>
      termination_check_m m True 0 = Inr m \<and>
      termination_check_m m True t1 = Inr (m\<lparr>button_hold_start := t1\<rparr>) \<and>
      termination_check_m (m\<lparr>button_hold_start := t1\<rparr>) True t2 =
        (if 3000 < ticks_diff t2 t1
         then Inl ([Print ''System Terminated by User (Hold).''] @ dmd_stop @ dmd_disable
                   @ set_leds 0 0 0)
         else Inr (m\<lparr>button_hold_start := t1\<rparr>)))"
  by (simp add: termination_check_def termination_check_m_def ticks_diff_def)

text \<open>C10, amended, at polls at 0 and 50 ms followed by one at 3050 ms or at 3051 ms.\<close>

theorem sentinel_delays_hold_witness:
  "button_press_start (rwb_init 0) = 0 \<and>
   termination_check (rwb_init 0) True 0 = Inr (rwb_init 0) \<and>
   termination_check (rwb_init 0) True 50 = Inr ((rwb_init 0)\<lparr>button_press_start := 50\<rparr>) \<and>
   hold_polls (rwb_init 0) [(True, 0), (True, 50), (True, 3050)]
     = Inr ((rwb_init 0)\<lparr>button_press_start := 50\<rparr>) \<and>
   hold_polls (rwb_init 0) [(True, 0), (True, 50), (True, 3051)]
     = Inl [Print ''System Terminated by User (Hold).'', LeftMotorStop, RightMotorStop,
            StbyPinOff, LedRedValue 0, LedBlueValue 0, GreenDuty 0] \<and>
   button_hold_start (main_init 0) = 0 \<and>
   termination_check_m (main_init 0) True 0 = Inr (main_init 0) \<and>
   termination_check_m ((main_init 0)\<lparr>button_hold_start := 50\<rparr>) True 3051
     = Inl [Print ''System Terminated by User (Hold).'', LeftMotorStop, RightMotorStop,
            StbyPinOff, LedRedValue 0, LedBlueValue 0, GreenDuty 0]"
  using sentinel_delays_hold [of "rwb_init 0" 50 3050 "main_init 0"]
    sentinel_delays_hold [of "rwb_init 0" 50 3051 "main_init 0"]
  by (simp add: rwb_init_def main_init_def dmd_stop_def dmd_disable_def set_leds_def
      termination_check_def termination_check_m_def ticks_diff_def)

end
